theory Spec2Isabelle
  imports Main
begin

section \<open>Common values\<close>

text \<open>
  The route handlers are modelled at the level of their bodies. A handler takes the
  document store and the parts of the request it reads, and returns the new store and
  what became of the request: a response with its HTTP status, or an error that the
  handler raised and did not catch (a rejected promise, for an async handler).
  \<open>Date.now()\<close> and the random draws of the code generator are inputs of the model.

  An ObjectId is read as the natural number its twelve bytes spell. The identifier of a
  new user is taken from a counter of the store.
\<close>

type_synonym oid = nat
type_synonym millis = int

datatype error = TypeError | RangeError | MulterError | MongooseError

datatype 'b outcome = Responded nat 'b | Raised error

definition json :: "'b \<Rightarrow> 'b outcome" where
  "json b = Responded 200 b"

definition status_json :: "nat \<Rightarrow> 'b \<Rightarrow> 'b outcome" where
  "status_json c b = Responded c b"

section \<open>models/user.js and models/order.js\<close>

record user =
  user_id :: oid
  mobile :: string
  otp :: string
  otpExpiry :: millis

text \<open>
  The type of the \<open>customer\<close> field is a parameter: an ObjectId in the collection, the
  selected fields of the owner after \<open>populate\<close>. So is the type of \<open>weight\<close>, a
  JavaScript number.
\<close>

record ('c, 'w) order =
  order_id :: oid
  customer :: 'c
  category :: string
  weight :: 'w
  photos :: "string list"
  date :: string
  time :: string
  status :: string

record 'w store =
  users :: "user list"
  orders :: "(oid, 'w) order list"
  nextId :: nat

definition empty_store :: "'w store" where
  "empty_store = \<lparr>users = [], orders = [], nextId = 0\<rparr>"


text \<open>Update the first document that matches, as \<open>findOneAndUpdate\<close> does.\<close>

fun update_first :: "('a \<Rightarrow> bool) \<Rightarrow> ('a \<Rightarrow> 'a) \<Rightarrow> 'a list \<Rightarrow> 'a list" where
  "update_first p f [] = []"
| "update_first p f (x # xs) = (if p x then f x # xs else x # update_first p f xs)"

section \<open>routes/auth.js\<close>

subsection \<open>The code generator\<close>

text \<open>
  \<open>otp-generator\<close> is a package, not code of the repository. Its \<open>generate(length,
  options)\<close> builds a string of \<open>length\<close> characters, each drawn at random from the
  character classes that are switched on; an option that is not given is on. The random
  draws are the argument \<open>rnd\<close>. With no class switched on there is nothing to draw
  from, and the draw raises.
\<close>

record gen_options =
  digits :: "bool option"
  lowerCaseAlphabets :: "bool option"
  upperCaseAlphabets :: "bool option"
  specialChars :: "bool option"

definition enabled :: "bool option \<Rightarrow> bool" where
  "enabled f = (case f of None \<Rightarrow> True | Some b \<Rightarrow> b)"

definition allowsChars :: "gen_options \<Rightarrow> string" where
  "allowsChars opts =
     (if enabled (digits opts) then ''0123456789'' else []) @
     (if enabled (lowerCaseAlphabets opts) then ''abcdefghijklmnopqrstuvwxyz'' else []) @
     (if enabled (upperCaseAlphabets opts) then ''ABCDEFGHIJKLMNOPQRSTUVWXYZ'' else []) @
     (if enabled (specialChars opts) then ''#!&@'' else [])"

definition generate :: "nat \<Rightarrow> gen_options \<Rightarrow> (nat \<Rightarrow> nat) \<Rightarrow> error + string" where
  "generate n opts rnd =
     (let cs = allowsChars opts in
      if cs = [] then Inl RangeError
      else Inr (map (\<lambda>i. cs ! (rnd i mod length cs)) [0..<n]))"

text \<open>The options object of the call in \<open>send-otp\<close>.\<close>

definition send_otp_options :: gen_options where
  "send_otp_options =
     \<lparr>digits = None, lowerCaseAlphabets = None,
      upperCaseAlphabets = Some False, specialChars = Some False\<rparr>"

subsection \<open>The handlers\<close>

datatype auth_body =
    OtpSent string string
  | Verified bool oid
  | AuthError string

text \<open>
  \<open>User.findOneAndUpdate({ mobile }, { otp, otpExpiry }, { upsert: true, new: true })\<close>:
  the first user with this mobile gets the new code and expiry; when there is none, a
  user is inserted under a fresh identifier. The document after the update is returned.
\<close>

definition User_findOne :: "'w store \<Rightarrow> string \<Rightarrow> user option" where
  "User_findOne st m = find (\<lambda>u. mobile u = m) (users st)"

definition User_findOneAndUpdate ::
  "'w store \<Rightarrow> string \<Rightarrow> string \<Rightarrow> millis \<Rightarrow> 'w store \<times> user" where
  "User_findOneAndUpdate st m c e =
     (case User_findOne st m of
        Some u \<Rightarrow>
          (st\<lparr>users := update_first (\<lambda>x. mobile x = m) (\<lambda>x. x\<lparr>otp := c, otpExpiry := e\<rparr>) (users st)\<rparr>,
           u\<lparr>otp := c, otpExpiry := e\<rparr>)
      | None \<Rightarrow>
          (let u = \<lparr>user_id = nextId st, mobile = m, otp = c, otpExpiry = e\<rparr>
           in (st\<lparr>users := users st @ [u], nextId := nextId st + 1\<rparr>, u)))"

definition sendCode ::
  "'w store \<Rightarrow> string \<Rightarrow> (nat \<Rightarrow> nat) \<Rightarrow> millis \<Rightarrow> 'w store \<times> auth_body outcome" where
  "sendCode st m rnd now =
     (case generate 4 send_otp_options rnd of
        Inl e \<Rightarrow> (st, Raised e)
      | Inr c \<Rightarrow>
          (let expiry = now + 5 * 60 * 1000;
               (st', u) = User_findOneAndUpdate st m c expiry
           in (st', json (OtpSent ''OTP sent'' c))))"

definition verifyCode :: "'w store \<Rightarrow> string \<Rightarrow> string \<Rightarrow> millis \<Rightarrow> auth_body outcome" where
  "verifyCode st m c now =
     (case User_findOne st m of
        Some u \<Rightarrow>
          if otp u = c \<and> otpExpiry u > now then json (Verified True (user_id u))
          else status_json 400 (AuthError ''Invalid or expired OTP'')
      | None \<Rightarrow> status_json 400 (AuthError ''Invalid or expired OTP''))"

section \<open>routes/order.js\<close>

subsection \<open>The upload middleware\<close>

text \<open>
  \<open>upload.array('photos', 5)\<close> runs before the handler. A request that is not
  multipart passes through untouched, so \<open>req.files\<close> stays undefined. Of a multipart
  request every file part of the field \<open>photos\<close> is stored on disk under the name
  the storage gives it; more than five parts are an error that skips the handler. The
  fields of the body are strings, or absent.
\<close>

record upload_part =
  part_originalname :: string
  received :: millis

record stored_file =
  originalname :: string
  filename :: string
  path :: string

fun nat_digits :: "nat \<Rightarrow> string" where
  "nat_digits n =
     (if n < 10 then [''0123456789'' ! n]
      else nat_digits (n div 10) @ [''0123456789'' ! (n mod 10)])"

definition number_to_string :: "int \<Rightarrow> string" where
  "number_to_string i =
     (if i < 0 then CHR ''-'' # nat_digits (nat (- i)) else nat_digits (nat i))"

definition storage_destination :: string where
  "storage_destination = ''uploads/''"

definition storage_filename :: "upload_part \<Rightarrow> string" where
  "storage_filename p = number_to_string (received p) @ ''-'' @ part_originalname p"

definition store_part :: "upload_part \<Rightarrow> stored_file" where
  "store_part p =
     \<lparr>originalname = part_originalname p,
      filename = storage_filename p,
      path = storage_destination @ storage_filename p\<rparr>"

record new_request =
  multipart :: bool
  body_userId :: "string option"
  body_category :: "string option"
  body_weight :: "string option"
  body_date :: "string option"
  body_time :: "string option"
  parts :: "upload_part list"

definition upload_array :: "nat \<Rightarrow> new_request \<Rightarrow> error + stored_file list option" where
  "upload_array maxCount req =
     (if \<not> multipart req then Inr None
      else if length (parts req) > maxCount then Inl MulterError
      else Inr (Some (map store_part (parts req))))"

subsection \<open>The handlers\<close>

datatype 'w order_body =
    OrderError string
  | OrderCreated bool "(oid, 'w) order"
  | OrderList "(oid, 'w) order list"

text \<open>\<open>!v\<close> for a body field: true when the field is absent or the empty string.\<close>

definition falsy :: "string option \<Rightarrow> bool" where
  "falsy v = (case v of None \<Rightarrow> True | Some s \<Rightarrow> s = [])"


text \<open>
  The handlers do not call the statics on the model: \<open>import { create, find } from
  '../models/order'\<close> binds the functions alone, and \<open>create({ ... })\<close> and
  \<open>find({ ... })\<close> call them with no receiver. A static of a Mongoose model first checks
  that its receiver is a model and raises when it is not, so such a call raises before
  anything is cast, stored or read, whatever its arguments are.
\<close>

definition create ::
  "'w store \<Rightarrow> string \<Rightarrow> string \<Rightarrow> string \<Rightarrow> string \<Rightarrow> string \<Rightarrow> string list \<Rightarrow>
   'w store \<times> (error + (oid, 'w) order)" where
  "create st u c w d t ps = (st, Inl MongooseError)"

definition find_static :: "'w store \<Rightarrow> string option \<Rightarrow> error + (oid, 'w) order list" where
  "find_static st customer_filter = Inl MongooseError"

definition createOrder ::
  "'w store \<Rightarrow> new_request \<Rightarrow> stored_file list option \<Rightarrow> 'w store \<times> 'w order_body outcome" where
  "createOrder st req files =
     (if falsy (body_userId req) \<or> falsy (body_category req) \<or> falsy (body_weight req)
         \<or> falsy (body_date req) \<or> falsy (body_time req)
      then (st, status_json 400 (OrderError ''All fields required''))
      else
        (case files of
           None \<Rightarrow> (st, Raised TypeError)
         | Some fs \<Rightarrow>
             if length fs = 0 then (st, status_json 400 (OrderError ''All fields required''))
             else
               (let ps = map path fs in
                case create st (the (body_userId req)) (the (body_category req))
                       (the (body_weight req)) (the (body_date req)) (the (body_time req)) ps of
                  (st', Inl e) \<Rightarrow> (st', Raised e)
                | (st', Inr ord) \<Rightarrow> (st', json (OrderCreated True ord)))))"

definition post_new :: "'w store \<Rightarrow> new_request \<Rightarrow> 'w store \<times> 'w order_body outcome" where
  "post_new st req =
     (case upload_array 5 req of
        Inl e \<Rightarrow> (st, Raised e)
      | Inr files \<Rightarrow> createOrder st req files)"

text \<open>\<open>find({ customer: req.params.userId }).sort('-_id')\<close>\<close>

definition sort_desc_id :: "('c, 'w) order list \<Rightarrow> ('c, 'w) order list" where
  "sort_desc_id xs = rev (sort_key order_id xs)"

definition listOrders :: "'w store \<Rightarrow> string \<Rightarrow> 'w order_body outcome" where
  "listOrders st userId =
     (case find_static st (Some userId) of
        Inl e \<Rightarrow> Raised e
      | Inr found \<Rightarrow> json (OrderList (sort_desc_id found)))"

section \<open>routes/admin.js\<close>

text \<open>
  \<open>populate('customer', 'mobile')\<close> replaces the reference by the selected fields of
  the user it names, the identifier and the mobile, or by null when there is no such
  user. \<open>find\<close> and \<open>findByIdAndUpdate\<close> are imported by name here too and called
  with no receiver.
\<close>

record customer_ref =
  ref_id :: oid
  ref_mobile :: string

datatype 'w admin_body =
    AllOrders "(customer_ref option, 'w) order list"
  | StatusSet bool "(oid, 'w) order option"
  | NoRoute

definition populate :: "user list \<Rightarrow> (oid, 'w) order \<Rightarrow> (customer_ref option, 'w) order" where
  "populate us x =
     \<lparr>order_id = order_id x,
      customer = map_option (\<lambda>u. \<lparr>ref_id = user_id u, ref_mobile = mobile u\<rparr>)
                   (find (\<lambda>u. user_id u = customer x) us),
      category = category x, weight = weight x, photos = photos x,
      date = date x, time = time x, status = status x\<rparr>"

definition listAllOrders :: "'w store \<Rightarrow> 'w admin_body outcome" where
  "listAllOrders st =
     (case find_static st None of
        Inl e \<Rightarrow> Raised e
      | Inr found \<Rightarrow> json (AllOrders (map (populate (users st)) found)))"

text \<open>\<open>findByIdAndUpdate(req.params.orderId, { status }, { new: true })\<close>\<close>

definition findByIdAndUpdate ::
  "'w store \<Rightarrow> string \<Rightarrow> string \<Rightarrow> 'w store \<times> (error + (oid, 'w) order option)" where
  "findByIdAndUpdate st orderId s = (st, Inl MongooseError)"

definition setOrderStatus ::
  "'w store \<Rightarrow> string \<Rightarrow> string \<Rightarrow> 'w store \<times> 'w admin_body outcome" where
  "setOrderStatus st orderId s =
     (case findByIdAndUpdate st orderId s of
        (st', Inl e) \<Rightarrow> (st', Raised e)
      | (st', Inr ord) \<Rightarrow> (st', json (StatusSet True ord)))"

subsection \<open>The router\<close>

text \<open>
  The two handlers are registered at \<open>'./orders'\<close> and
  \<open>'./order/:orderId/status'\<close>. The router compares the pattern with the path of the
  request that is left after the mount point \<open>/api/admin\<close>, segment by segment: a
  segment \<open>:name\<close> takes any non-empty segment, any other segment must be the same. A
  request that no route takes is answered 404 by the framework.
\<close>

fun split_on :: "char \<Rightarrow> string \<Rightarrow> string list" where
  "split_on c [] = [[]]"
| "split_on c (x # xs) =
     (if x = c then [] # split_on c xs
      else (case split_on c xs of
              [] \<Rightarrow> [[x]]
            | s # ss \<Rightarrow> (x # s) # ss))"

fun match_segments :: "string list \<Rightarrow> string list \<Rightarrow> (string \<times> string) list option" where
  "match_segments [] [] = Some []"
| "match_segments (p # ps) (s # ss) =
     (case p of
        [] \<Rightarrow> (if s = [] then match_segments ps ss else None)
      | c # name \<Rightarrow>
          if c = CHR '':'' then
            (if s = [] then None
             else (case match_segments ps ss of
                     None \<Rightarrow> None
                   | Some params \<Rightarrow> Some ((name, s) # params)))
          else if p = s then match_segments ps ss
          else None)"
| "match_segments [] (s # ss) = None"
| "match_segments (p # ps) [] = None"

definition match_route :: "string \<Rightarrow> string \<Rightarrow> (string \<times> string) list option" where
  "match_route pattern req_path =
     match_segments (split_on CHR ''/'' pattern) (split_on CHR ''/'' req_path)"

datatype http_method = GET | POST

definition admin_router ::
  "'w store \<Rightarrow> http_method \<Rightarrow> string \<Rightarrow> string \<Rightarrow> 'w store \<times> 'w admin_body outcome" where
  "admin_router st m req_path body_status =
     (case m of
        GET \<Rightarrow>
          (case match_route ''./orders'' req_path of
             Some params \<Rightarrow> (st, listAllOrders st)
           | None \<Rightarrow> (st, Responded 404 NoRoute))
      | POST \<Rightarrow>
          (case match_route ''./order/:orderId/status'' req_path of
             Some params \<Rightarrow>
               (case map_of params ''orderId'' of
                  Some orderId \<Rightarrow> setOrderStatus st orderId body_status
                | None \<Rightarrow> (st, Responded 404 NoRoute))
           | None \<Rightarrow> (st, Responded 404 NoRoute)))"

section \<open>Sequences of requests\<close>





section \<open>scrbbbb/app.js\<close>

text \<open>
  The demo app keeps its metadata in the file \<open>uploads/data.json\<close>. The file system
  is the content of that file, or nothing while the file does not exist.
  \<open>JSON.parse\<close> (no result when it raises) and \<open>JSON.stringify\<close> are parameters.
\<close>

datatype jsval =
    JNull
  | JBool bool
  | JNum int
  | JStr string
  | JArr "jsval list"
  | JObj "(string \<times> jsval) list"

record filesystem =
  dataFile :: "string option"

definition readData :: "(string \<Rightarrow> jsval option) \<Rightarrow> filesystem \<Rightarrow> jsval" where
  "readData parse fs =
     (case dataFile fs of
        None \<Rightarrow> JArr []
      | Some raw \<Rightarrow> (case parse raw of None \<Rightarrow> JArr [] | Some v \<Rightarrow> v))"

definition writeData :: "(jsval \<Rightarrow> string) \<Rightarrow> filesystem \<Rightarrow> jsval \<Rightarrow> filesystem" where
  "writeData stringify fs arr = fs\<lparr>dataFile := Some (stringify arr)\<rparr>"

record uploaded_image =
  image_filename :: string
  image_originalname :: string
  image_mimetype :: string
  image_size :: int

record upload_request =
  req_file :: "uploaded_image option"
  body_name :: "string option"
  body_email :: "string option"
  body_description :: "string option"

datatype page = Text string | UploadedPage | AdminPage string

text \<open>\<open>v || ''\<close> for a body field\<close>

definition or_empty :: "string option \<Rightarrow> string" where
  "or_empty v = (case v of None \<Rightarrow> [] | Some s \<Rightarrow> s)"

definition newItem :: "upload_request \<Rightarrow> uploaded_image \<Rightarrow> millis \<Rightarrow> string \<Rightarrow> jsval" where
  "newItem req f now stamp =
     JObj [(''id'', JNum now),
           (''name'', JStr (or_empty (body_name req))),
           (''email'', JStr (or_empty (body_email req))),
           (''description'', JStr (or_empty (body_description req))),
           (''filename'', JStr (image_filename f)),
           (''originalName'', JStr (image_originalname f)),
           (''mimetype'', JStr (image_mimetype f)),
           (''size'', JNum (image_size f)),
           (''uploadedAt'', JStr stamp)]"

text \<open>
  \<open>POST /upload\<close>. \<open>arr.unshift\<close> is a method of arrays only: on any other parsed
  value the call raises.
\<close>

definition post_upload ::
  "(string \<Rightarrow> jsval option) \<Rightarrow> (jsval \<Rightarrow> string) \<Rightarrow> filesystem \<Rightarrow> upload_request \<Rightarrow> millis \<Rightarrow>
   string \<Rightarrow> filesystem \<times> page outcome" where
  "post_upload parse stringify fs req now stamp =
     (case req_file req of
        None \<Rightarrow> (fs, Responded 400 (Text ''No file uploaded.''))
      | Some f \<Rightarrow>
          (case readData parse fs of
             JArr arr \<Rightarrow>
               (writeData stringify fs (JArr (newItem req f now stamp # arr)),
                Responded 200 UploadedPage)
           | _ \<Rightarrow> (fs, Raised TypeError)))"

text \<open>
  \<open>GET /admin\<close>, behind the Basic-Auth check. The template of one row is the
  parameter \<open>row\<close>; it may raise. The rows are joined by newlines, and an empty result
  is replaced by the note that there are no uploads.
\<close>

fun map_rows :: "(jsval \<Rightarrow> error + string) \<Rightarrow> jsval list \<Rightarrow> error + string list" where
  "map_rows row [] = Inr []"
| "map_rows row (x # xs) =
     (case row x of
        Inl e \<Rightarrow> Inl e
      | Inr r \<Rightarrow> (case map_rows row xs of Inl e \<Rightarrow> Inl e | Inr rs \<Rightarrow> Inr (r # rs)))"

fun join :: "string \<Rightarrow> string list \<Rightarrow> string" where
  "join sep [] = []"
| "join sep [r] = r"
| "join sep (r # rs) = r @ sep @ join sep rs"

definition get_admin ::
  "(string \<Rightarrow> jsval option) \<Rightarrow> (jsval \<Rightarrow> error + string) \<Rightarrow> filesystem \<Rightarrow> page outcome" where
  "get_admin parse row fs =
     (case readData parse fs of
        JArr items \<Rightarrow>
          (case map_rows row items of
             Inl e \<Rightarrow> Raised e
           | Inr rs \<Rightarrow>
               (let joined = join [CHR 0x0A] rs;
                    rows = (if joined = [] then ''<p>No uploads yet.</p>'' else joined)
                in Responded 200 (AdminPage rows)))
      | _ \<Rightarrow> Raised TypeError)"

section \<open>Predicates of the properties and example inputs\<close>

definition numeric :: "string \<Rightarrow> bool" where
  "numeric s = list_all (\<lambda>c. c \<in> set ''0123456789'') s"



text \<open>Random draws that count up from \<open>k\<close>.\<close>

definition draw_from :: "nat \<Rightarrow> nat \<Rightarrow> nat" where
  "draw_from k i = k + i"

definition example_user :: user where
  "example_user = \<lparr>user_id = 0, mobile = ''9999999999'', otp = ''1234'', otpExpiry = 300000\<rparr>"

definition example_order :: "(oid, nat) order" where
  "example_order =
     \<lparr>order_id = 1, customer = 0, category = ''wool'', weight = 3,
      photos = [''uploads/1700000000000-a.png''], date = ''2026-01-01'', time = ''10:00'',
      status = ''Pending''\<rparr>"

definition example_store :: "nat store" where
  "example_store = \<lparr>users = [example_user], orders = [example_order], nextId = 2\<rparr>"

definition example_request :: new_request where
  "example_request =
     \<lparr>multipart = True,
      body_userId = Some ''000000000000000000000000'',
      body_category = Some ''wool'',
      body_weight = Some ''3'',
      body_date = Some ''2026-01-01'',
      body_time = Some ''10:00'',
      parts = [\<lparr>part_originalname = ''a.png'', received = 1700000000000\<rparr>]\<rparr>"

text \<open>The example request with an empty \<open>userId\<close>.\<close>

definition empty_userId_request :: new_request where
  "empty_userId_request = example_request\<lparr>body_userId := Some []\<rparr>"

text \<open>
  For the demo app: a parser that reads the empty array only, a printer, a row template
  that raises on null, and an upload.
\<close>

definition example_parse :: "string \<Rightarrow> jsval option" where
  "example_parse raw = (if raw = ''[]'' then Some (JArr []) else None)"

definition example_stringify :: "jsval \<Rightarrow> string" where
  "example_stringify v = (case v of JArr [] \<Rightarrow> ''[]'' | _ \<Rightarrow> ''[ ... ]'')"

definition example_row :: "jsval \<Rightarrow> error + string" where
  "example_row it = (case it of JNull \<Rightarrow> Inl TypeError | _ \<Rightarrow> Inr ''<div></div>'')"

definition example_image :: uploaded_image where
  "example_image =
     \<lparr>image_filename = ''1700000000000-a.png'', image_originalname = ''a.png'',
      image_mimetype = ''image/png'', image_size = 1024\<rparr>"

definition example_upload :: upload_request where
  "example_upload =
     \<lparr>req_file = Some example_image, body_name = Some ''Ann'', body_email = None,
      body_description = Some ''photo''\<rparr>"

section \<open>Properties of routes/auth.js\<close>

lemma allowsChars_send:
  "allowsChars send_otp_options = ''0123456789abcdefghijklmnopqrstuvwxyz''"
  by (simp add: allowsChars_def send_otp_options_def enabled_def)

lemma generate_send:
  "generate 4 send_otp_options rnd =
     Inr (map (\<lambda>i. ''0123456789abcdefghijklmnopqrstuvwxyz'' ! (rnd i mod 36)) [0..<4])"
  by (simp add: generate_def allowsChars_send Let_def)

lemma find_distinct_key:
  "distinct (map f xs) \<Longrightarrow> u \<in> set xs \<Longrightarrow> find (\<lambda>x. f x = f u) xs = Some u"
  by (induction xs) (auto simp: image_iff)

lemma find_Some_mem: "find p xs = Some u \<Longrightarrow> u \<in> set xs \<and> p u"
  by (induction xs) (auto split: if_splits)

lemma find_update_first:
  "find p xs = Some u \<Longrightarrow> p (f u) \<Longrightarrow> find p (update_first p f xs) = Some (f u)"
  by (induction xs) (auto split: if_splits)

lemma find_append_new:
  "find p xs = None \<Longrightarrow> p u \<Longrightarrow> find p (xs @ [u]) = Some u"
  by (induction xs) (auto split: if_splits)

text \<open>
  C1. The claim is that the code \<open>sendCode\<close> generates is four decimal digits. The
  options of the call switch off the upper-case letters and the special characters and
  leave the lower-case letters on: when the draws are 10, 11, 12, 13 the code sent for
  the mobile 9999999999 is \<open>abcd\<close>, which is returned in the response and is not
  numeric.
\<close>

theorem sendCode_code_not_numeric:
  "snd (sendCode (empty_store :: nat store) ''9999999999'' (draw_from 10) 0)
     = Responded 200 (OtpSent ''OTP sent'' ''abcd'') \<and> \<not> numeric ''abcd''"
  by (simp add: sendCode_def generate_send User_findOneAndUpdate_def User_findOne_def
      empty_store_def json_def draw_from_def numeric_def Let_def upt_conv_Cons)

text \<open>
  C2. In a store with at most one user per mobile, \<open>verifyCode\<close> answers 200 with the
  identifier \<open>i\<close> exactly when a user with this mobile exists whose stored code is the
  supplied one, whose expiry is strictly after now, and whose identifier is \<open>i\<close>. In
  every other case (no such user, another code, expired) the answer is the one response
  400 with the error \<open>Invalid or expired OTP\<close>.
\<close>

theorem verifyCode_iff:
  assumes "distinct (map mobile (users st))"
  shows "(verifyCode st m c now = Responded 200 (Verified True i)
            \<longleftrightarrow> (\<exists>u \<in> set (users st). mobile u = m \<and> otp u = c \<and> now < otpExpiry u
                   \<and> user_id u = i))
       \<and> (\<not> (\<exists>u \<in> set (users st). mobile u = m \<and> otp u = c \<and> now < otpExpiry u)
            \<longrightarrow> verifyCode st m c now = Responded 400 (AuthError ''Invalid or expired OTP''))"
proof (cases "User_findOne st m")
  case None
  then have no: "\<forall>u \<in> set (users st). mobile u \<noteq> m"
    by (simp add: User_findOne_def find_None_iff)
  have vc: "verifyCode st m c now = Responded 400 (AuthError ''Invalid or expired OTP'')"
    using None by (simp add: verifyCode_def status_json_def)
  have "\<not> (\<exists>u \<in> set (users st). mobile u = m \<and> otp u = c \<and> now < otpExpiry u \<and> user_id u = i)"
    using no by blast
  with vc show ?thesis by simp
next
  case (Some u)
  then have mem: "u \<in> set (users st)" and mu: "mobile u = m"
    using find_Some_mem [of "\<lambda>u. mobile u = m" "users st" u]
    by (simp_all add: User_findOne_def)
  have uniq: "v = u" if "v \<in> set (users st)" "mobile v = m" for v
  proof -
    have "find (\<lambda>x. mobile x = mobile v) (users st) = Some v"
      using assms that(1) by (rule find_distinct_key)
    with Some that(2) show ?thesis by (simp add: User_findOne_def)
  qed
  have vc: "verifyCode st m c now =
      (if otp u = c \<and> now < otpExpiry u then Responded 200 (Verified True (user_id u))
       else Responded 400 (AuthError ''Invalid or expired OTP''))"
    using Some by (simp add: verifyCode_def status_json_def json_def)
  have e1: "(\<exists>v \<in> set (users st). mobile v = m \<and> otp v = c \<and> now < otpExpiry v \<and> user_id v = i)
      \<longleftrightarrow> (otp u = c \<and> now < otpExpiry u \<and> user_id u = i)"
    using mem mu uniq by blast
  have e2: "(\<exists>v \<in> set (users st). mobile v = m \<and> otp v = c \<and> now < otpExpiry v)
      \<longleftrightarrow> (otp u = c \<and> now < otpExpiry u)"
    using mem mu uniq by blast
  show ?thesis
    unfolding e1 e2 vc by (cases "otp u = c"; cases "now < otpExpiry u"; simp)
qed

theorem verifyCode_iff_witness:
  "distinct (map mobile (users example_store))
   \<and> verifyCode example_store ''9999999999'' ''1234'' 299999 = Responded 200 (Verified True 0)"
  using verifyCode_iff [of example_store "''9999999999''" "''1234''" 299999 0]
  by (simp add: example_store_def example_user_def)

lemma sendCode_new:
  assumes "User_findOne st m = None"
  shows "sendCode st m rnd t0 =
    (st\<lparr>users := users st @ [\<lparr>user_id = nextId st, mobile = m,
          otp = map (\<lambda>i. ''0123456789abcdefghijklmnopqrstuvwxyz'' ! (rnd i mod 36)) [0..<4],
          otpExpiry = t0 + 300000\<rparr>], nextId := nextId st + 1\<rparr>,
     Responded 200 (OtpSent ''OTP sent''
       (map (\<lambda>i. ''0123456789abcdefghijklmnopqrstuvwxyz'' ! (rnd i mod 36)) [0..<4])))"
  using assms
  by (simp add: sendCode_def generate_send User_findOneAndUpdate_def json_def Let_def)

lemma sendCode_old:
  assumes "User_findOne st m = Some u0"
  shows "sendCode st m rnd t0 =
    (st\<lparr>users := update_first (\<lambda>x. mobile x = m)
         (\<lambda>x. x\<lparr>otp := map (\<lambda>i. ''0123456789abcdefghijklmnopqrstuvwxyz'' ! (rnd i mod 36)) [0..<4],
                 otpExpiry := t0 + 300000\<rparr>) (users st)\<rparr>,
     Responded 200 (OtpSent ''OTP sent''
       (map (\<lambda>i. ''0123456789abcdefghijklmnopqrstuvwxyz'' ! (rnd i mod 36)) [0..<4])))"
  using assms
  by (simp add: sendCode_def generate_send User_findOneAndUpdate_def json_def Let_def)

text \<open>
  C3. \<open>sendCode\<close> always answers 200 with a code of four characters, and in the store
  it leaves, \<open>verifyCode\<close> for the same mobile and the returned code, at any time less
  than five minutes after the time of sending, answers 200 with the identifier of the
  user stored for that mobile; for a mobile that had a user before, it is that user's
  identifier.
\<close>

theorem send_then_verify:
  "\<exists>c st'. sendCode st m rnd t0 = (st', Responded 200 (OtpSent ''OTP sent'' c)) \<and> length c = 4 \<and>
     (\<forall>t1. t1 < t0 + 5 * 60 * 1000 \<longrightarrow>
        (\<exists>u. User_findOne st' m = Some u \<and>
             verifyCode st' m c t1 = Responded 200 (Verified True (user_id u)) \<and>
             (\<forall>u0. User_findOne st m = Some u0 \<longrightarrow> user_id u = user_id u0)))"
proof -
  define c where "c = map (\<lambda>i. ''0123456789abcdefghijklmnopqrstuvwxyz'' ! (rnd i mod 36)) [0..<4]"
  have len: "length c = 4" by (simp add: c_def)
  show ?thesis
  proof (cases "User_findOne st m")
    case None
    define u where "u = \<lparr>user_id = nextId st, mobile = m, otp = c, otpExpiry = t0 + 300000\<rparr>"
    define st' where "st' = st\<lparr>users := users st @ [u], nextId := nextId st + 1\<rparr>"
    have s: "sendCode st m rnd t0 = (st', Responded 200 (OtpSent ''OTP sent'' c))"
      using sendCode_new [OF None, of rnd t0] by (simp add: st'_def u_def c_def)
    have f: "User_findOne st' m = Some u"
      using None find_append_new [of "\<lambda>u. mobile u = m" "users st" u]
      by (simp add: User_findOne_def st'_def u_def)
    have v: "verifyCode st' m c t1 = Responded 200 (Verified True (user_id u))"
      if "t1 < t0 + 5 * 60 * 1000" for t1
      using that f by (simp add: verifyCode_def json_def u_def)
    have "\<forall>t1. t1 < t0 + 5 * 60 * 1000 \<longrightarrow>
        (\<exists>u. User_findOne st' m = Some u \<and>
             verifyCode st' m c t1 = Responded 200 (Verified True (user_id u)) \<and>
             (\<forall>u0. User_findOne st m = Some u0 \<longrightarrow> user_id u = user_id u0))"
    proof (intro allI impI)
      fix t1 :: int assume "t1 < t0 + 5 * 60 * 1000"
      then have "verifyCode st' m c t1 = Responded 200 (Verified True (user_id u))" by (rule v)
      with f None show "\<exists>u. User_findOne st' m = Some u \<and>
             verifyCode st' m c t1 = Responded 200 (Verified True (user_id u)) \<and>
             (\<forall>u0. User_findOne st m = Some u0 \<longrightarrow> user_id u = user_id u0)"
        by (intro exI [of _ u]) simp
    qed
    with s len show ?thesis by (intro exI [of _ c] exI [of _ st'] conjI)
  next
    case (Some u0)
    define u where "u = u0\<lparr>otp := c, otpExpiry := t0 + 300000\<rparr>"
    define st' where "st' = st\<lparr>users := update_first (\<lambda>x. mobile x = m)
         (\<lambda>x. x\<lparr>otp := c, otpExpiry := t0 + 300000\<rparr>) (users st)\<rparr>"
    have s: "sendCode st m rnd t0 = (st', Responded 200 (OtpSent ''OTP sent'' c))"
      using sendCode_old [OF Some, of rnd t0] by (simp add: st'_def c_def)
    have m0: "mobile u0 = m"
      using Some find_Some_mem [of "\<lambda>u. mobile u = m" "users st" u0]
      by (simp add: User_findOne_def)
    have f: "User_findOne st' m = Some u"
      using Some m0 find_update_first [of "\<lambda>u. mobile u = m" "users st" u0
          "\<lambda>x. x\<lparr>otp := c, otpExpiry := t0 + 300000\<rparr>"]
      by (simp add: User_findOne_def st'_def u_def)
    have v: "verifyCode st' m c t1 = Responded 200 (Verified True (user_id u))"
      if "t1 < t0 + 5 * 60 * 1000" for t1
      using that f by (simp add: verifyCode_def json_def u_def)
    have same: "user_id u = user_id u0" by (simp add: u_def)
    have "\<forall>t1. t1 < t0 + 5 * 60 * 1000 \<longrightarrow>
        (\<exists>u. User_findOne st' m = Some u \<and>
             verifyCode st' m c t1 = Responded 200 (Verified True (user_id u)) \<and>
             (\<forall>u0. User_findOne st m = Some u0 \<longrightarrow> user_id u = user_id u0))"
    proof (intro allI impI)
      fix t1 :: int assume "t1 < t0 + 5 * 60 * 1000"
      then have "verifyCode st' m c t1 = Responded 200 (Verified True (user_id u))" by (rule v)
      with f Some same show "\<exists>u. User_findOne st' m = Some u \<and>
             verifyCode st' m c t1 = Responded 200 (Verified True (user_id u)) \<and>
             (\<forall>u0. User_findOne st m = Some u0 \<longrightarrow> user_id u = user_id u0)"
        by (intro exI [of _ u]) simp
    qed
    with s len show ?thesis by (intro exI [of _ c] exI [of _ st'] conjI)
  qed
qed


theorem send_then_verify_witness:
  "\<exists>c st'. sendCode example_store ''9999999999'' (draw_from 5) 1000
              = (st', Responded 200 (OtpSent ''OTP sent'' c))
     \<and> (300999 :: int) < 1000 + 5 * 60 * 1000
     \<and> verifyCode st' ''9999999999'' c 300999 = Responded 200 (Verified True 0)"
proof -
  have old: "User_findOne example_store ''9999999999'' = Some example_user"
    by (simp add: User_findOne_def example_store_def example_user_def)
  have lt: "(300999 :: int) < 1000 + 5 * 60 * 1000" by simp
  from send_then_verify [of example_store "''9999999999''" "draw_from 5" 1000]
  obtain c st' where s: "sendCode example_store ''9999999999'' (draw_from 5) 1000
        = (st', Responded 200 (OtpSent ''OTP sent'' c))"
    and v: "\<forall>t1. t1 < 1000 + 5 * 60 * 1000 \<longrightarrow>
        (\<exists>u. User_findOne st' ''9999999999'' = Some u \<and>
             verifyCode st' ''9999999999'' c t1 = Responded 200 (Verified True (user_id u)) \<and>
             (\<forall>u0. User_findOne example_store ''9999999999'' = Some u0 \<longrightarrow> user_id u = user_id u0))"
    by blast
  from v [rule_format, OF lt] obtain u :: user where
    u1: "verifyCode st' ''9999999999'' c 300999 = Responded 200 (Verified True (user_id u))"
    and u2: "\<forall>u0. User_findOne example_store ''9999999999'' = Some u0 \<longrightarrow> user_id u = user_id u0"
    by blast
  from u2 [rule_format, OF old] have "user_id u = user_id example_user" .
  then have "user_id u = 0" by (simp add: example_user_def)
  with u1 have "verifyCode st' ''9999999999'' c 300999 = Responded 200 (Verified True 0)"
    by simp
  with s lt show ?thesis by (intro exI [of _ c] exI [of _ st'] conjI)
qed

section \<open>Properties of routes/order.js\<close>


lemma post_new_not_200: "snd (post_new st req) \<noteq> Responded 200 b"
  by (simp add: post_new_def upload_array_def createOrder_def create_def status_json_def
      Let_def split: option.splits)

text \<open>
  C4, as claimed: \<open>createOrder\<close> answers 400 exactly when one of the five fields is
  absent or no file is attached. A multipart request whose \<open>userId\<close> field is present
  and empty, with every other field present and one file attached, is answered 400: the
  check \<open>!userId\<close> is true of the empty string.
\<close>

theorem createOrder_empty_field_counterexample:
  "post_new example_store empty_userId_request
     = (example_store, Responded 400 (OrderError ''All fields required''))
   \<and> multipart empty_userId_request
   \<and> body_userId empty_userId_request \<noteq> None
   \<and> body_category empty_userId_request \<noteq> None
   \<and> body_weight empty_userId_request \<noteq> None
   \<and> body_date empty_userId_request \<noteq> None
   \<and> body_time empty_userId_request \<noteq> None
   \<and> length (parts empty_userId_request) = 1"
  by (simp add: post_new_def upload_array_def createOrder_def falsy_def status_json_def
      empty_userId_request_def example_request_def)

lemma falsy_iff: "falsy v \<longleftrightarrow> v = None \<or> v = Some []"
  by (simp add: falsy_def split: option.splits)

lemma post_new_multipart:
  assumes "multipart req" "length (parts req) \<le> 5"
  shows "post_new st req = createOrder st req (Some (map store_part (parts req)))"
  using assms by (simp add: post_new_def upload_array_def)

lemma createOrder_400:
  "(\<exists>b. snd (createOrder st req (Some fs)) = Responded 400 b)
     \<longleftrightarrow> (falsy (body_userId req) \<or> falsy (body_category req) \<or> falsy (body_weight req)
           \<or> falsy (body_date req) \<or> falsy (body_time req) \<or> fs = [])"
  by (auto simp: createOrder_def create_def status_json_def Let_def)

lemma createOrder_rejects:
  "falsy (body_userId req) \<or> falsy (body_category req) \<or> falsy (body_weight req)
     \<or> falsy (body_date req) \<or> falsy (body_time req) \<or> fs = []
   \<Longrightarrow> createOrder st req (Some fs) = (st, Responded 400 (OrderError ''All fields required''))"
  by (auto simp: createOrder_def status_json_def)

text \<open>
  C4, amended. For a multipart request with at most five files, the route answers 400
  exactly when one of \<open>userId\<close>, \<open>category\<close>, \<open>weight\<close>, \<open>date\<close>,
  \<open>time\<close> is absent or the empty string, or no file is attached; the answer is then
  the error \<open>All fields required\<close> and the store is unchanged. In particular a request
  with no file is answered so, whatever the fields.
\<close>

theorem createOrder_validation:
  assumes "multipart req" and "length (parts req) \<le> 5"
  shows "((\<exists>b. snd (post_new st req) = Responded 400 b)
           \<longleftrightarrow> (body_userId req = None \<or> body_userId req = Some []
               \<or> body_category req = None \<or> body_category req = Some []
               \<or> body_weight req = None \<or> body_weight req = Some []
               \<or> body_date req = None \<or> body_date req = Some []
               \<or> body_time req = None \<or> body_time req = Some []
               \<or> length (parts req) = 0))
       \<and> ((\<exists>b. snd (post_new st req) = Responded 400 b)
            \<longrightarrow> post_new st req = (st, Responded 400 (OrderError ''All fields required'')))
       \<and> (length (parts req) = 0
            \<longrightarrow> post_new st req = (st, Responded 400 (OrderError ''All fields required'')))"
proof -
  let ?fs = "map store_part (parts req)"
  let ?bad = "falsy (body_userId req) \<or> falsy (body_category req) \<or> falsy (body_weight req)
           \<or> falsy (body_date req) \<or> falsy (body_time req) \<or> ?fs = []"
  have p: "post_new st req = createOrder st req (Some ?fs)"
    using assms by (rule post_new_multipart)
  have a: "(\<exists>b. snd (post_new st req) = Responded 400 b) \<longleftrightarrow> ?bad"
    unfolding p by (rule createOrder_400)
  have b: "?bad \<Longrightarrow> post_new st req = (st, Responded 400 (OrderError ''All fields required''))"
    unfolding p by (rule createOrder_rejects)
  from a b show ?thesis
    by (simp add: falsy_iff)
qed

theorem createOrder_validation_witness:
  "multipart empty_userId_request \<and> length (parts empty_userId_request) \<le> 5
   \<and> post_new example_store empty_userId_request
       = (example_store, Responded 400 (OrderError ''All fields required''))
   \<and> multipart example_request \<and> length (parts example_request) \<le> 5
   \<and> \<not> (\<exists>b. snd (post_new example_store example_request) = Responded 400 b)"
  using createOrder_validation [of empty_userId_request example_store]
    createOrder_validation [of example_request example_store]
  by (simp add: empty_userId_request_def example_request_def)

text \<open>
  C5. The claim is that a successful \<open>createOrder\<close> persists the order and returns it.
  A multipart request with all five fields and one file passes the check, and the
  handler then calls \<open>create\<close> with no receiver: the call raises, nothing is stored
  and nothing is answered.
\<close>

theorem createOrder_raises:
  "post_new example_store example_request = (example_store, Raised MongooseError)"
  by (simp add: post_new_def upload_array_def createOrder_def create_def falsy_def
      example_request_def Let_def)

text \<open>
  C6. The claim is that \<open>listOrders\<close> returns the orders of the user, newest first.
  The handler calls \<open>find\<close> with no receiver: for the customer of the stored example
  order, as for any other \<open>userId\<close>, the call raises and no list is answered.
\<close>

theorem listOrders_raises:
  "listOrders example_store ''000000000000000000000000'' = Raised MongooseError
   \<and> orders example_store = [example_order]"
  by (simp add: listOrders_def find_static_def example_store_def)

section \<open>Properties of routes/admin.js\<close>


lemma no_route_orders: "match_route ''./orders'' (CHR ''/'' # rest) = None"
  by (simp add: match_route_def)

lemma no_route_status: "match_route ''./order/:orderId/status'' (CHR ''/'' # rest) = None"
  by (simp add: match_route_def)

text \<open>Every request path begins with a slash, and the router takes none of them.\<close>

lemma admin_router_404:
  "admin_router st m (CHR ''/'' # rest) s = (st, Responded 404 NoRoute)"
  by (cases m) (simp_all add: admin_router_def no_route_orders no_route_status)

subsection \<open>The status of an order\<close>






subsection \<open>Setting the status and listing all orders\<close>

text \<open>
  C8. The claim is that \<open>setOrderStatus\<close> overwrites the status of the matched order
  and returns the updated record. For the identifier of the stored example order the
  handler calls \<open>findByIdAndUpdate\<close> with no receiver: the call raises and the order
  keeps its status. The request does not reach the handler either: its path is not
  taken by the route \<open>'./order/:orderId/status'\<close> and is answered 404.
\<close>

theorem setOrderStatus_raises:
  "setOrderStatus example_store ''000000000000000000000001'' ''Scheduled''
     = (example_store, Raised MongooseError)
   \<and> admin_router example_store POST ''/order/000000000000000000000001/status'' ''Scheduled''
     = (example_store, Responded 404 NoRoute)"
  by (simp add: setOrderStatus_def findByIdAndUpdate_def admin_router_404)

text \<open>
  C9. The claim is that \<open>listAllOrders\<close> returns every order with the mobile of its
  owner. With one order in the store the handler calls \<open>find\<close> with no receiver: the
  call raises and no listing is answered. The request does not reach the handler
  either: its path is not taken by the route \<open>'./orders'\<close> and is answered 404.
\<close>

theorem listAllOrders_raises:
  "listAllOrders example_store = Raised MongooseError
   \<and> admin_router example_store GET ''/orders'' [] = (example_store, Responded 404 NoRoute)"
  by (simp add: listAllOrders_def find_static_def admin_router_404)

section \<open>Properties of scrbbbb/app.js\<close>

lemma readData_empty:
  assumes "dataFile fs = None \<or> (\<exists>raw. dataFile fs = Some raw \<and> parse raw = None)"
  shows "readData parse fs = JArr []"
  using assms by (auto simp: readData_def)

text \<open>An upload puts the new item in front of the items read.\<close>

lemma post_upload_array:
  assumes "readData parse fs = JArr arr" and "req_file req = Some f"
  shows "post_upload parse stringify fs req now stamp =
     (fs\<lparr>dataFile := Some (stringify (JArr (newItem req f now stamp # arr)))\<rparr>,
      Responded 200 UploadedPage)"
  using assms by (simp add: post_upload_def writeData_def)

lemma get_admin_empty:
  assumes "readData parse fs = JArr []"
  shows "get_admin parse row fs = Responded 200 (AdminPage ''<p>No uploads yet.</p>'')"
  using assms by (simp add: get_admin_def)

text \<open>
  C10. When the metadata file does not exist, or its content does not parse, \<open>readData\<close>
  returns the empty list; the admin listing then answers 200 with the note that there
  are no uploads, and an upload that carries a file answers 200 and writes the file with
  the list holding the new item alone.
\<close>

theorem readData_missing_or_unparsable:
  assumes "dataFile fs = None \<or> (\<exists>raw. dataFile fs = Some raw \<and> parse raw = None)"
  shows "readData parse fs = JArr []
       \<and> get_admin parse row fs = Responded 200 (AdminPage ''<p>No uploads yet.</p>'')
       \<and> (\<forall>f. req_file req = Some f \<longrightarrow>
             post_upload parse stringify fs req now stamp =
               (fs\<lparr>dataFile := Some (stringify (JArr [newItem req f now stamp]))\<rparr>,
                Responded 200 UploadedPage))"
proof -
  have r: "readData parse fs = JArr []" using assms by (rule readData_empty)
  have a: "get_admin parse row fs = Responded 200 (AdminPage ''<p>No uploads yet.</p>'')"
    using r by (rule get_admin_empty)
  have u: "post_upload parse stringify fs req now stamp =
               (fs\<lparr>dataFile := Some (stringify (JArr [newItem req f now stamp]))\<rparr>,
                Responded 200 UploadedPage)" if "req_file req = Some f" for f
    using r that by (rule post_upload_array)
  from r a u show ?thesis by blast
qed

theorem readData_missing_or_unparsable_witness:
  "dataFile \<lparr>dataFile = None\<rparr> = None
   \<and> readData example_parse \<lparr>dataFile = None\<rparr> = JArr []
   \<and> get_admin example_parse example_row \<lparr>dataFile = None\<rparr>
       = Responded 200 (AdminPage ''<p>No uploads yet.</p>'')
   \<and> post_upload example_parse example_stringify \<lparr>dataFile = None\<rparr> example_upload
         1700000000000 ''2023-11-14T22:13:20.000Z''
       = (\<lparr>dataFile = Some ''[ ... ]''\<rparr>, Responded 200 UploadedPage)
   \<and> example_parse ''{oops'' = None
   \<and> readData example_parse \<lparr>dataFile = Some ''{oops''\<rparr> = JArr []"
  using readData_missing_or_unparsable [where fs = "\<lparr>dataFile = None\<rparr>"
      and parse = example_parse and req = example_upload and row = example_row
      and stringify = example_stringify and now = 1700000000000
      and stamp = "''2023-11-14T22:13:20.000Z''"]
    readData_missing_or_unparsable [where fs = "\<lparr>dataFile = Some ''{oops''\<rparr>"
      and parse = example_parse and req = example_upload and row = example_row
      and stringify = example_stringify and now = 1700000000000
      and stamp = "''2023-11-14T22:13:20.000Z''"]
  by (simp add: example_parse_def example_upload_def example_stringify_def newItem_def)

end
